theory Spec2Isabelle
  imports Main "HOL-Library.Word" "HOL-Library.Sublist" "HOL-Library.Multiset"
begin

section \<open>Time, durations and the clock\<close>

text \<open>
  Go's \<^verbatim>\<open>time.Duration\<close> is an \<^verbatim>\<open>int64\<close> count of nanoseconds: a 64-bit word,
  read as two's complement by \<open>sint\<close> and compared with the signed order \<open><s\<close>.
  Go's \<^verbatim>\<open>int\<close> is taken at its 64-bit width (the width on the amd64 and arm64
  runners the action is built for). A \<^verbatim>\<open>time.Time\<close> without monotonic reading (the
  only kind the program compares: \<^verbatim>\<open>CreatedAt\<close> is decoded from JSON) is an instant
  on the wall clock, modelled as an integer number of nanoseconds since a fixed epoch.
\<close>

type_synonym Duration = "64 word"
type_synonym go_int = "64 word"
type_synonym Time = int

definition Nanosecond :: Duration where "Nanosecond = 1"
definition Microsecond :: Duration where "Microsecond = 1000 * Nanosecond"
definition Millisecond :: Duration where "Millisecond = 1000 * Microsecond"
definition Second :: Duration where "Second = 1000 * Millisecond"
definition Minute :: Duration where "Minute = 60 * Second"
definition Hour :: Duration where "Hour = 60 * Minute"

definition minDuration :: Duration where "minDuration = - (2 ^ 63)"
definition maxDuration :: Duration where "maxDuration = 2 ^ 63 - 1"

text \<open>
  \<^verbatim>\<open>t.Sub(u)\<close> of package time: the difference is computed in \<^verbatim>\<open>int64\<close>,
  wrapping; it is returned if adding it back to \<open>u\<close> gives \<open>t\<close>, and replaced by the
  nearest bound otherwise.
\<close>

definition Sub :: "Time \<Rightarrow> Time \<Rightarrow> Duration" where
  "Sub t u =
     (let d = (word_of_int (t - u) :: Duration)
      in if u + sint d = t then d
         else if t < u then minDuration
         else maxDuration)"

text \<open>
  The wall clock is the one input the program reads without being given it. A clock is
  the sequence of readings that the successive calls of \<^verbatim>\<open>time.Now()\<close> will return;
  a call returns the first and leaves the rest.
\<close>

type_synonym clock = "nat \<Rightarrow> Time"

definition Now :: "clock \<Rightarrow> Time \<times> clock" where
  "Now clk = (clk 0, \<lambda>i. clk (Suc i))"

text \<open>\<^verbatim>\<open>time.Since(t)\<close> is \<^verbatim>\<open>time.Now().Sub(t)\<close>.\<close>

definition Since :: "clock \<Rightarrow> Time \<Rightarrow> Duration \<times> clock" where
  "Since clk t = (case Now clk of (n, clk') \<Rightarrow> (Sub n t, clk'))"

section \<open>Alerts and the SLA evaluator\<close>

record Alert =
  Kind :: string
  Severity :: string
  Link :: string
  CreatedAt :: Time

text \<open>
  \<^verbatim>\<open>filterBreachedAlerts\<close>: the slice holds the pointers that
  \<^verbatim>\<open>fetchRepoAlerts\<close> builds with \<^verbatim>\<open>&Alert{...}\<close>, none of them nil, and no
  alert is written after it is built, so the model holds the alerts themselves. The loop
  body reads the clock once for each alert; \<open>breached\<close> is the slice the loop appends
  to, nil at the start.
\<close>

fun filterBreachedAlerts_loop ::
  "clock \<Rightarrow> Alert list \<Rightarrow> Duration \<Rightarrow> Duration \<Rightarrow> Duration \<Rightarrow> Duration \<Rightarrow>
   Alert list \<Rightarrow> Alert list \<times> clock" where
  "filterBreachedAlerts_loop clk []
     criticalThreshold highThreshold mediumThreshold lowThreshold breached =
     (breached, clk)"
| "filterBreachedAlerts_loop clk (a # alerts)
     criticalThreshold highThreshold mediumThreshold lowThreshold breached =
     (case Since clk (CreatedAt a) of (s, clk') \<Rightarrow>
        if criticalThreshold <s s \<or> highThreshold <s s \<or>
           mediumThreshold <s s \<or> lowThreshold <s s
        then filterBreachedAlerts_loop clk' alerts
               criticalThreshold highThreshold mediumThreshold lowThreshold (breached @ [a])
        else filterBreachedAlerts_loop clk' alerts
               criticalThreshold highThreshold mediumThreshold lowThreshold breached)"

definition filterBreachedAlerts ::
  "clock \<Rightarrow> Alert list \<Rightarrow> Duration \<Rightarrow> Duration \<Rightarrow> Duration \<Rightarrow> Duration \<Rightarrow>
   Alert list \<times> clock" where
  "filterBreachedAlerts clk alerts criticalThreshold highThreshold mediumThreshold lowThreshold =
     filterBreachedAlerts_loop clk alerts
       criticalThreshold highThreshold mediumThreshold lowThreshold []"

text \<open>
  The age that the loop measures for the alert it meets in iteration \<open>i\<close> (counted from
  0): the value of \<^verbatim>\<open>s := time.Since(a.CreatedAt)\<close> there, taken at the \<open>i\<close>-th
  reading of the clock that the call was started with.
\<close>

definition age :: "clock \<Rightarrow> nat \<Rightarrow> Alert \<Rightarrow> Duration" where
  "age clk i a = fst (Since (\<lambda>j. clk (i + j)) (CreatedAt a))"

section \<open>Fetching the alerts\<close>

text \<open>
  A Go \<^verbatim>\<open>error\<close> is either a \<^verbatim>\<open>*github.ErrorResponse\<close>, of which the program
  reads the \<^verbatim>\<open>Message\<close>, or an error of any other type, kept with its text.
\<close>

datatype error = ErrorResponse (Message: string) | OtherError string

text \<open>
  \<^verbatim>\<open>strings.Contains(s, substr)\<close>: \<open>substr\<close> starts at some position of \<open>s\<close>.
\<close>

fun Contains :: "string \<Rightarrow> string \<Rightarrow> bool" where
  "Contains [] substr = (substr = [])"
| "Contains (c # s) substr = (prefix substr (c # s) \<or> Contains s substr)"

text \<open>\<^verbatim>\<open>isDisabledError\<close>; the warning it logs is not modelled.\<close>

fun isDisabledError :: "error \<Rightarrow> bool" where
  "isDisabledError (ErrorResponse msg) = Contains msg ''disabled''"
| "isDisabledError (OtherError txt) = False"

text \<open>
  The alerts of the three listing endpoints, each with the values the program reads
  through the client's getters (a getter returns the zero value for an absent field).
\<close>

datatype CodeScanningAlert =
  CodeScanningAlert (cs_GetRuleSeverity: string) (cs_GetHTMLURL: string) (cs_GetCreatedAt: Time)

datatype DependabotAlert =
  DependabotAlert (dep_GetSeverity: string) (dep_GetHTMLURL: string) (dep_GetCreatedAt: Time)

datatype SecretScanningAlert =
  SecretScanningAlert (ss_GetHTMLURL: string) (ss_GetCreatedAt: Time)

datatype event =
  PullRequestEvent int string
| PullRequestTargetEvent int string
| OtherEvent string

record CheckRunOutput =
  Title :: "string option"
  Summary :: "string option"

record CreateCheckRunOptions =
  Name :: string
  HeadSHA :: string
  Status :: "string option"
  Conclusion :: "string option"
  StartedAt :: "Time option"
  CompletedAt :: "Time option"
  Output :: "CheckRunOutput option"

record PullRequestReviewRequest =
  Body :: "string option"
  Event :: "string option"

text \<open>
  The collaborators of one run: what \<^verbatim>\<open>action.GetEvent()\<close> returns (a pull-request
  event carries its number and head SHA, any other event the name of its type), what each
  listing call returns (the slice and the error, as the Go call returns both), and the
  error, if any, with which each publishing call answers a request. Every listing call is
  made at most once in a run, with fixed arguments.
\<close>

record Env =
  GetEvent :: "error + event"
  CodeScanning_ListAlertsForRepo :: "CodeScanningAlert list \<times> error option"
  Dependabot_ListRepoAlerts :: "DependabotAlert list \<times> error option"
  SecretScanning_ListAlertsForRepo :: "SecretScanningAlert list \<times> error option"
  Checks_CreateCheckRun :: "CreateCheckRunOptions \<Rightarrow> error option"
  PullRequests_CreateReview :: "int \<Rightarrow> PullRequestReviewRequest \<Rightarrow> error option"

text \<open>
  \<^verbatim>\<open>fetchRepoAlerts\<close> returns the alerts and the error; where it returns an error
  its slice is nil, the empty list. After an error of a listing call that
  \<^verbatim>\<open>isDisabledError\<close> accepts, the loop still ranges over the slice that the call
  returned with the error (the client returns a nil slice with every error).
\<close>

definition fetchRepoAlerts :: "Env \<Rightarrow> Alert list \<times> error option" where
  "fetchRepoAlerts env =
     (let alerts = [] in
      case CodeScanning_ListAlertsForRepo env of (codeScanningAlerts, err) \<Rightarrow>
      if (case err of None \<Rightarrow> False | Some e \<Rightarrow> \<not> isDisabledError e) then ([], err)
      else
      let alerts = alerts @ map (\<lambda>a. \<lparr>Kind = ''CodeScanning'', Severity = cs_GetRuleSeverity a,
                                       Link = cs_GetHTMLURL a, CreatedAt = cs_GetCreatedAt a\<rparr>)
                                codeScanningAlerts in
      case Dependabot_ListRepoAlerts env of (dependabotAlerts, err) \<Rightarrow>
      if (case err of None \<Rightarrow> False | Some e \<Rightarrow> \<not> isDisabledError e) then ([], err)
      else
      let alerts = alerts @ map (\<lambda>a. \<lparr>Kind = ''Dependabot'', Severity = dep_GetSeverity a,
                                       Link = dep_GetHTMLURL a, CreatedAt = dep_GetCreatedAt a\<rparr>)
                                dependabotAlerts in
      case SecretScanning_ListAlertsForRepo env of (secretScanningAlerts, err) \<Rightarrow>
      if (case err of None \<Rightarrow> False | Some e \<Rightarrow> \<not> isDisabledError e) then ([], err)
      else
      let alerts = alerts @ map (\<lambda>a. \<lparr>Kind = ''SecretScanning'', Severity = ''critical'',
                                       Link = ss_GetHTMLURL a, CreatedAt = ss_GetCreatedAt a\<rparr>)
                                secretScanningAlerts in
      (alerts, None))"

section \<open>The run\<close>

record Action =
  Token :: string
  Critical :: go_int
  High :: go_int
  Medium :: go_int
  Low :: go_int

text \<open>
  The four thresholds that \<^verbatim>\<open>Run\<close> computes first, as
  \<^verbatim>\<open>time.Duration(a.Critical*24) * time.Hour\<close> and likewise for the other three:
  both products are taken in 64 bits and wrap around.
\<close>

definition criticalThreshold :: "Action \<Rightarrow> Duration" where
  "criticalThreshold a = (Critical a * 24) * Hour"

definition highThreshold :: "Action \<Rightarrow> Duration" where
  "highThreshold a = (High a * 24) * Hour"

definition mediumThreshold :: "Action \<Rightarrow> Duration" where
  "mediumThreshold a = (Medium a * 24) * Hour"

definition lowThreshold :: "Action \<Rightarrow> Duration" where
  "lowThreshold a = (Low a * 24) * Hour"

text \<open>
  \<^verbatim>\<open>fmt.Sprintf\<close> as the program uses it: the only verb is \<^verbatim>\<open>%d\<close>, its operand is
  the length of a slice, a natural number printed in decimal, and every call passes as
  many operands as its format has verbs.
\<close>

fun Itoa :: "nat \<Rightarrow> string" where
  "Itoa n = (if n < 10 then [''0123456789'' ! n] else Itoa (n div 10) @ [''0123456789'' ! (n mod 10)])"

fun Sprintf :: "string \<Rightarrow> nat list \<Rightarrow> string" where
  "Sprintf [] args = []"
| "Sprintf [c] args = [c]"
| "Sprintf (c # d # fmt) args =
     (if c = CHR ''%'' \<and> d = CHR ''d''
      then (case args of
              [] \<Rightarrow> ''%!d(MISSING)'' @ Sprintf fmt []
            | n # rest \<Rightarrow> Itoa n @ Sprintf fmt rest)
      else c # Sprintf (d # fmt) args)"

definition checkRunName :: string where
  "checkRunName = ''Security SLA''"

definition checkRunSuccessTitle :: string where
  "checkRunSuccessTitle = ''No security SLA breaches found''"

definition checkRunSuccessText :: string where
  "checkRunSuccessText = ''All security alerts are within the security SLA.''"

definition checkRunFailureTitle :: string where
  "checkRunFailureTitle = ''Found %d security SLA breaches''"

definition checkRunFailureText :: string where
  "checkRunFailureText = ''Found %d out of %d security alerts breaching security SLA.''"

text \<open>The requests a run sends to the publishing endpoints, in the order it sends them.\<close>

datatype call =
  CreateCheckRun CreateCheckRunOptions
| CreateReview int PullRequestReviewRequest

text \<open>
  \<^verbatim>\<open>Action.Run\<close> of \<^verbatim>\<open>main.go\<close>: the error it returns and the requests it has
  published. Logging and the construction of the client are not modelled.
\<close>

definition Run :: "Env \<Rightarrow> Action \<Rightarrow> clock \<Rightarrow> error option \<times> call list" where
  "Run env a clk =
     (case GetEvent env of
        Inl err \<Rightarrow> (Some err, [])
      | Inr event \<Rightarrow>
     (case Now clk of (started, clk1) \<Rightarrow>
      let checkRunOpts = \<lparr>Name = checkRunName, HeadSHA = [], Status = Some ''completed'',
                           Conclusion = None, StartedAt = Some started, CompletedAt = None,
                           Output = None\<rparr> in
     (case (case event of
              PullRequestEvent n sha \<Rightarrow> Inr (checkRunOpts\<lparr>HeadSHA := sha\<rparr>)
            | PullRequestTargetEvent n sha \<Rightarrow> Inr (checkRunOpts\<lparr>HeadSHA := sha\<rparr>)
            | OtherEvent ty \<Rightarrow> Inl (OtherError (''unexpected event type: '' @ ty))) of
        Inl err \<Rightarrow> (Some err, [])
      | Inr checkRunOpts \<Rightarrow>
     (case fetchRepoAlerts env of (alerts, err) \<Rightarrow>
      if err \<noteq> None then (err, [])
      else if length alerts = 0 then
        (case Now clk1 of (completed, clk2) \<Rightarrow>
         let checkRunOpts = checkRunOpts
               \<lparr>CompletedAt := Some completed, Conclusion := Some ''success'',
                Output := Some \<lparr>Title = Some checkRunSuccessTitle,
                                 Summary = Some checkRunSuccessText\<rparr>\<rparr>
         in (Checks_CreateCheckRun env checkRunOpts, [CreateCheckRun checkRunOpts]))
      else
     (case filterBreachedAlerts clk1 alerts (criticalThreshold a) (highThreshold a)
             (mediumThreshold a) (lowThreshold a) of (breached, clk2) \<Rightarrow>
      if length breached = 0 then
        (case Now clk2 of (completed, clk3) \<Rightarrow>
         let checkRunOpts = checkRunOpts
               \<lparr>CompletedAt := Some completed, Conclusion := Some ''success'',
                Output := Some \<lparr>Title = Some checkRunSuccessTitle,
                                 Summary = Some checkRunSuccessText\<rparr>\<rparr>
         in (Checks_CreateCheckRun env checkRunOpts, [CreateCheckRun checkRunOpts]))
      else
        (case Now clk2 of (completed, clk3) \<Rightarrow>
         let checkRunOpts = checkRunOpts
               \<lparr>CompletedAt := Some completed, Conclusion := Some ''failure'',
                Output := Some \<lparr>Title = Some (Sprintf checkRunFailureTitle [length breached]),
                                 Summary = Some (Sprintf checkRunFailureText
                                                   [length breached, length alerts])\<rparr>\<rparr>
         in (Checks_CreateCheckRun env checkRunOpts, [CreateCheckRun checkRunOpts])))))))"

text \<open>
  \<^verbatim>\<open>Action.Run\<close> of the second source file, the variant that also reviews the pull
  request: the review is created first, and the check run only if that succeeded. The
  file differs from \<^verbatim>\<open>main.go\<close> in this function and in the name of the check run.
\<close>

definition checkRunName_review :: string where
  "checkRunName_review = ''enforce-security-sla-action''"

definition Run_review :: "Env \<Rightarrow> Action \<Rightarrow> clock \<Rightarrow> error option \<times> call list" where
  "Run_review env a clk =
     (case Now clk of (startTime, clk1) \<Rightarrow>
     (case GetEvent env of
        Inl err \<Rightarrow> (Some err, [])
      | Inr event \<Rightarrow>
     (case (case event of
              PullRequestEvent n sha \<Rightarrow> Inr (n, sha)
            | PullRequestTargetEvent n sha \<Rightarrow> Inr (n, sha)
            | OtherEvent ty \<Rightarrow> Inl (OtherError (''unexpected event type: '' @ ty))) of
        Inl err \<Rightarrow> (Some err, [])
      | Inr (prNumber, prHeadSHA) \<Rightarrow>
     (case fetchRepoAlerts env of (alerts, err) \<Rightarrow>
      if err \<noteq> None then (err, [])
      else if length alerts = 0 then
        (let review = \<lparr>Body = None, Event = Some ''APPROVE''\<rparr>;
             err = PullRequests_CreateReview env prNumber review in
         if err \<noteq> None then (err, [CreateReview prNumber review])
         else
        (case Now clk1 of (completed, clk2) \<Rightarrow>
         let checkRunOpts = \<lparr>Name = checkRunName_review, HeadSHA = prHeadSHA,
                              Status = Some ''completed'', Conclusion = Some ''success'',
                              StartedAt = Some startTime, CompletedAt = Some completed,
                              Output = Some \<lparr>Title = Some checkRunSuccessTitle,
                                              Summary = Some checkRunFailureText\<rparr>\<rparr>
         in (Checks_CreateCheckRun env checkRunOpts,
             [CreateReview prNumber review, CreateCheckRun checkRunOpts])))
      else
     (case filterBreachedAlerts clk1 alerts (criticalThreshold a) (highThreshold a)
             (mediumThreshold a) (lowThreshold a) of (breached, clk2) \<Rightarrow>
      if length breached = 0 then
        (let review = \<lparr>Body = None, Event = Some ''APPROVE''\<rparr>;
             err = PullRequests_CreateReview env prNumber review in
         if err \<noteq> None then (err, [CreateReview prNumber review])
         else
        (case Now clk2 of (completed, clk3) \<Rightarrow>
         let checkRunOpts = \<lparr>Name = checkRunName_review, HeadSHA = prHeadSHA,
                              Status = Some ''completed'', Conclusion = Some ''success'',
                              StartedAt = Some startTime, CompletedAt = Some completed,
                              Output = Some \<lparr>Title = Some checkRunSuccessTitle,
                                              Summary = Some checkRunFailureText\<rparr>\<rparr>
         in (Checks_CreateCheckRun env checkRunOpts,
             [CreateReview prNumber review, CreateCheckRun checkRunOpts])))
      else
        (let review = \<lparr>Body = Some (Sprintf ''Found %d out of %d security alerts breaching security SLA.''
                                         [length breached, length alerts]),
                       Event = Some ''REQUEST_CHANGES''\<rparr>;
             err = PullRequests_CreateReview env prNumber review in
         if err \<noteq> None then (err, [CreateReview prNumber review])
         else
        (case Now clk2 of (completed, clk3) \<Rightarrow>
         let checkRunOpts = \<lparr>Name = checkRunName_review, HeadSHA = prHeadSHA,
                              Status = Some ''completed'', Conclusion = Some ''failure'',
                              StartedAt = Some startTime, CompletedAt = Some completed,
                              Output = Some \<lparr>Title = Some (Sprintf checkRunFailureTitle [length breached]),
                                              Summary = Some (Sprintf checkRunFailureText
                                                                [length breached, length alerts])\<rparr>\<rparr>
         in (Checks_CreateCheckRun env checkRunOpts,
             [CreateReview prNumber review, CreateCheckRun checkRunOpts]))))))))"

section \<open>Properties of the SLA evaluator\<close>

lemma Since_eq: "Since clk t = (Sub (clk 0) t, \<lambda>i. clk (Suc i))"
  by (simp add: Since_def Now_def)

lemma age_eq: "age clk i a = Sub (clk i) (CreatedAt a)"
  by (simp add: age_def Since_eq)

text \<open>
  \<^verbatim>\<open>Sub\<close> is the exact difference where that fits 64 bits, and the nearest bound
  where it does not; so is the age of an alert.
\<close>

lemma sint_Sub:
  "sint (Sub t u) =
     (if t - u < - (2 ^ 63) then - (2 ^ 63) else if 2 ^ 63 - 1 < t - u then 2 ^ 63 - 1 else t - u)"
proof -
  let ?d = "word_of_int (t - u) :: Duration"
  have lo: "- (2 ^ 63) \<le> sint ?d" and hi: "sint ?d < 2 ^ 63"
    using sint_ge [of ?d] sint_lt [of ?d] by simp_all
  show ?thesis
  proof (cases "- (2 ^ 63) \<le> t - u \<and> t - u < 2 ^ 63")
    case True
    then have eq: "sint ?d = t - u"
      unfolding sint_sbintrunc' by (intro signed_take_bit_int_eq_self) simp_all
    then have "u + sint ?d = t"
      by (simp only: add_diff_cancel_left' add.commute diff_add_cancel)
    then have "Sub t u = ?d"
      unfolding Sub_def Let_def by (simp only: if_True refl)
    with eq have "sint (Sub t u) = t - u"
      by (simp only:)
    with True show ?thesis
      by simp
  next
    case False
    with lo hi have "u + sint ?d \<noteq> t"
      by auto
    then have "Sub t u = (if t < u then minDuration else maxDuration)"
      unfolding Sub_def Let_def by (simp only: if_False)
    then have "sint (Sub t u) = (if t < u then - (2 ^ 63) else 2 ^ 63 - 1)"
      by (simp add: minDuration_def maxDuration_def)
    with False show ?thesis
      by auto
  qed
qed

lemma sint_age:
  "sint (age clk i a) =
     (if clk i - CreatedAt a < - (2 ^ 63) then - (2 ^ 63)
      else if 2 ^ 63 - 1 < clk i - CreatedAt a then 2 ^ 63 - 1
      else clk i - CreatedAt a)"
  by (simp only: age_eq sint_Sub)

text \<open>The slice the loop appends to only grows at its end.\<close>

lemma loop_acc:
  "fst (filterBreachedAlerts_loop clk alerts c h m l breached) =
   breached @ fst (filterBreachedAlerts_loop clk alerts c h m l [])"
proof (induction alerts arbitrary: clk breached)
  case Nil
  show ?case by simp
next
  case (Cons a alerts)
  show ?case
    using Cons.IH [of "\<lambda>i. clk (Suc i)" "breached @ [a]"]
          Cons.IH [of "\<lambda>i. clk (Suc i)" "[a]"]
          Cons.IH [of "\<lambda>i. clk (Suc i)" "breached"]
    by (simp add: Since_eq)
qed

text \<open>The loop reads the clock once for each alert.\<close>

lemma loop_clock:
  "snd (filterBreachedAlerts_loop clk alerts c h m l breached) = (\<lambda>j. clk (length alerts + j))"
  by (induction alerts arbitrary: clk breached) (simp_all add: Since_eq)

lemma filterBreachedAlerts_Nil: "filterBreachedAlerts clk [] c h m l = ([], clk)"
  by (simp add: filterBreachedAlerts_def)

lemma filterBreachedAlerts_Cons:
  "fst (filterBreachedAlerts clk (a # alerts) c h m l) =
   (if c <s age clk 0 a \<or> h <s age clk 0 a \<or> m <s age clk 0 a \<or> l <s age clk 0 a
    then [a] else []) @ fst (filterBreachedAlerts (\<lambda>i. clk (Suc i)) alerts c h m l)"
  using loop_acc [of "\<lambda>i. clk (Suc i)" alerts c h m l "[a]"]
  by (simp add: filterBreachedAlerts_def Since_eq age_eq)

text \<open>
  The result is the input restricted to the positions whose alert, at the reading of its
  iteration, is older than one of the thresholds.
\<close>

lemma filterBreachedAlerts_nths:
  "fst (filterBreachedAlerts clk alerts c h m l) =
   nths alerts {i. i < length alerts \<and>
     (c <s age clk i (alerts ! i) \<or> h <s age clk i (alerts ! i) \<or>
      m <s age clk i (alerts ! i) \<or> l <s age clk i (alerts ! i))}"
proof (induction alerts arbitrary: clk)
  case Nil
  show ?case by (simp add: filterBreachedAlerts_Nil)
next
  case (Cons a alerts)
  show ?case
    by (simp add: filterBreachedAlerts_Cons Cons.IH nths_Cons age_eq)
qed

text \<open>
  Claim C1. For every list of alerts and every four thresholds, an alert is in the result
  of \<^verbatim>\<open>filterBreachedAlerts\<close> if and only if it stands at some position of the input
  where its age, the time since its \<^verbatim>\<open>CreatedAt\<close>, exceeds at least one of the four
  thresholds. The severity of the alert plays no part in the condition.
\<close>

theorem filterBreachedAlerts_any_threshold:
  "a \<in> set (fst (filterBreachedAlerts clk alerts c h m l)) \<longleftrightarrow>
   (\<exists>i<length alerts. alerts ! i = a \<and>
      (c <s age clk i a \<or> h <s age clk i a \<or> m <s age clk i a \<or> l <s age clk i a))"
  by (auto simp add: filterBreachedAlerts_nths set_nths)

lemma filterBreachedAlerts_clock:
  "snd (filterBreachedAlerts clk alerts c h m l) = (\<lambda>j. clk (length alerts + j))"
  by (simp add: filterBreachedAlerts_def loop_clock)

text \<open>The test of the loop body, read on the two's-complement values.\<close>

lemma breach_iff_min:
  "(c <s s \<or> h <s s \<or> m <s s \<or> l <s s) \<longleftrightarrow>
   min (min (sint c) (sint h)) (min (sint m) (sint l)) < sint s"
  by (auto simp add: word_sless_alt min_less_iff_disj)

text \<open>
  Claim C4. If every alert of the list, at the reading of its iteration, has an age less
  than or equal to each of the four thresholds, \<^verbatim>\<open>filterBreachedAlerts\<close> returns the
  empty list.
\<close>

theorem filterBreachedAlerts_all_within:
  assumes "\<forall>i<length alerts.
             age clk i (alerts ! i) \<le>s c \<and> age clk i (alerts ! i) \<le>s h \<and>
             age clk i (alerts ! i) \<le>s m \<and> age clk i (alerts ! i) \<le>s l"
  shows "fst (filterBreachedAlerts clk alerts c h m l) = []"
proof -
  have "{i. i < length alerts \<and>
     (c <s age clk i (alerts ! i) \<or> h <s age clk i (alerts ! i) \<or>
      m <s age clk i (alerts ! i) \<or> l <s age clk i (alerts ! i))} = {}"
    using assms by (auto simp add: signed.not_less [symmetric])
  then show ?thesis
    unfolding filterBreachedAlerts_nths by (simp only: nths_empty)
qed

text \<open>
  Two alerts of ages 50 and 10 nanoseconds at their readings, against thresholds of 50,
  60, 70 and 80: none is returned.
\<close>

theorem filterBreachedAlerts_all_within_witness:
  "age (\<lambda>i. 100 + int i) 0
     \<lparr>Kind = ''Dependabot'', Severity = ''high'', Link = ''u1'', CreatedAt = 50\<rparr> = 50 \<and>
   age (\<lambda>i. 100 + int i) 1
     \<lparr>Kind = ''CodeScanning'', Severity = ''error'', Link = ''u2'', CreatedAt = 91\<rparr> = 10 \<and>
   fst (filterBreachedAlerts (\<lambda>i. 100 + int i)
      [\<lparr>Kind = ''Dependabot'', Severity = ''high'', Link = ''u1'', CreatedAt = 50\<rparr>,
       \<lparr>Kind = ''CodeScanning'', Severity = ''error'', Link = ''u2'', CreatedAt = 91\<rparr>]
      50 60 70 80) = []"
proof -
  let ?clk = "\<lambda>i. 100 + int i"
  let ?xs = "[\<lparr>Kind = ''Dependabot'', Severity = ''high'', Link = ''u1'', CreatedAt = 50\<rparr>,
       \<lparr>Kind = ''CodeScanning'', Severity = ''error'', Link = ''u2'', CreatedAt = 91\<rparr>]"
  have a0: "age ?clk 0 (?xs ! 0) = 50" and a1: "age ?clk 1 (?xs ! 1) = 10"
    by (simp_all add: age_eq Sub_def)
  have "age ?clk i (?xs ! i) \<le>s 50 \<and> age ?clk i (?xs ! i) \<le>s 60 \<and>
        age ?clk i (?xs ! i) \<le>s 70 \<and> age ?clk i (?xs ! i) \<le>s 80" if "i < length ?xs" for i
  proof -
    from that have "i = 0 \<or> i = 1" by auto
    then show ?thesis
      using a0 a1 by (elim disjE) simp_all
  qed
  then have "fst (filterBreachedAlerts ?clk ?xs 50 60 70 80) = []"
    using filterBreachedAlerts_all_within [of ?xs ?clk 50 60 70 80] by blast
  with a0 a1 show ?thesis by simp
qed

text \<open>
  Claim C5. An alert of the input whose age, at the reading of its iteration, exceeds the
  maximum of the four thresholds is in the list that \<^verbatim>\<open>filterBreachedAlerts\<close>
  returns.
\<close>

theorem filterBreachedAlerts_older_than_max:
  assumes "i < length alerts"
    and "max (max (sint c) (sint h)) (max (sint m) (sint l)) < sint (age clk i (alerts ! i))"
  shows "alerts ! i \<in> set (fst (filterBreachedAlerts clk alerts c h m l))"
proof -
  from assms(2) have "c <s age clk i (alerts ! i)"
    by (simp add: word_sless_alt)
  with assms(1) show ?thesis
    by (auto simp add: filterBreachedAlerts_nths set_nths)
qed

text \<open>The second alert is 90 nanoseconds old, above the largest threshold, 80.\<close>

theorem filterBreachedAlerts_older_than_max_witness:
  "\<lparr>Kind = ''SecretScanning'', Severity = ''critical'', Link = ''u2'', CreatedAt = 10\<rparr>
     \<in> set (fst (filterBreachedAlerts (\<lambda>i. 100)
      [\<lparr>Kind = ''Dependabot'', Severity = ''high'', Link = ''u1'', CreatedAt = 95\<rparr>,
       \<lparr>Kind = ''SecretScanning'', Severity = ''critical'', Link = ''u2'', CreatedAt = 10\<rparr>]
      50 60 70 80))"
  using filterBreachedAlerts_older_than_max [of 1
      "[\<lparr>Kind = ''Dependabot'', Severity = ''high'', Link = ''u1'', CreatedAt = 95\<rparr>,
        \<lparr>Kind = ''SecretScanning'', Severity = ''critical'', Link = ''u2'', CreatedAt = 10\<rparr>]"
      50 60 70 80 "\<lambda>i. 100"]
  by (simp add: age_eq Sub_def)

text \<open>
  Claim C9. The result of \<^verbatim>\<open>filterBreachedAlerts\<close>, and the clock it leaves, are the
  same for every rearrangement of the four thresholds among the four positions: the
  result consists of the positions whose age exceeds the least of the four.
\<close>

theorem filterBreachedAlerts_thresholds_permuted:
  assumes "mset [c, h, m, l] = mset [c', h', m', l']"
  shows "filterBreachedAlerts clk alerts c h m l = filterBreachedAlerts clk alerts c' h' m' l' \<and>
         fst (filterBreachedAlerts clk alerts c h m l) =
           nths alerts {i. i < length alerts \<and>
             min (min (sint c) (sint h)) (min (sint m) (sint l)) < sint (age clk i (alerts ! i))}"
proof -
  from assms have "set [c, h, m, l] = set [c', h', m', l']"
    by (rule mset_eq_setD)
  then have "(\<exists>t \<in> set [c, h, m, l]. t <s s) \<longleftrightarrow> (\<exists>t \<in> set [c', h', m', l']. t <s s)" for s
    by simp
  then have "(c <s s \<or> h <s s \<or> m <s s \<or> l <s s) \<longleftrightarrow>
             (c' <s s \<or> h' <s s \<or> m' <s s \<or> l' <s s)" for s
    by simp
  then have "fst (filterBreachedAlerts clk alerts c h m l) =
             fst (filterBreachedAlerts clk alerts c' h' m' l')"
    by (simp add: filterBreachedAlerts_nths)
  then have "filterBreachedAlerts clk alerts c h m l = filterBreachedAlerts clk alerts c' h' m' l'"
    by (simp add: prod_eq_iff filterBreachedAlerts_clock)
  moreover have "fst (filterBreachedAlerts clk alerts c h m l) =
           nths alerts {i. i < length alerts \<and>
             min (min (sint c) (sint h)) (min (sint m) (sint l)) < sint (age clk i (alerts ! i))}"
    by (simp add: filterBreachedAlerts_nths breach_iff_min)
  ultimately show ?thesis by simp
qed

theorem filterBreachedAlerts_thresholds_permuted_witness:
  "filterBreachedAlerts (\<lambda>i. 100)
      [\<lparr>Kind = ''Dependabot'', Severity = ''high'', Link = ''u1'', CreatedAt = 95\<rparr>,
       \<lparr>Kind = ''SecretScanning'', Severity = ''critical'', Link = ''u2'', CreatedAt = 10\<rparr>]
      50 60 70 80 =
   filterBreachedAlerts (\<lambda>i. 100)
      [\<lparr>Kind = ''Dependabot'', Severity = ''high'', Link = ''u1'', CreatedAt = 95\<rparr>,
       \<lparr>Kind = ''SecretScanning'', Severity = ''critical'', Link = ''u2'', CreatedAt = 10\<rparr>]
      80 50 70 60"
proof -
  have "mset [50, 60, 70, 80 :: Duration] = mset [80, 50, 70, 60]"
    by (simp add: add_mset_commute)
  from filterBreachedAlerts_thresholds_permuted [OF this] show ?thesis by blast
qed

text \<open>
  Claim C10. \<^verbatim>\<open>Severity\<close>, \<^verbatim>\<open>Kind\<close> and \<^verbatim>\<open>Link\<close> have no influence on the
  verdict. Take two lists that agree, position by position, in \<^verbatim>\<open>CreatedAt\<close> and differ at will
  in the other three fields, and evaluate both against the same clock and thresholds:
  the same set of positions is selected from both, so an alert is kept exactly when its
  counterpart is. The result is the input restricted to a set of positions, in the order
  of the input.
\<close>

theorem filterBreachedAlerts_only_CreatedAt:
  assumes "map CreatedAt as = map CreatedAt bs"
  shows "(\<exists>I. fst (filterBreachedAlerts clk as c h m l) = nths as I \<and>
              fst (filterBreachedAlerts clk bs c h m l) = nths bs I) \<and>
         subseq (fst (filterBreachedAlerts clk as c h m l)) as"
proof -
  from assms have len: "length as = length bs"
    by (rule map_eq_imp_length_eq)
  have "CreatedAt (as ! i) = CreatedAt (bs ! i)" if "i < length bs" for i
    using that len nth_map [of i as CreatedAt] nth_map [of i bs CreatedAt] assms by simp
  then have "{i. i < length as \<and>
     (c <s age clk i (as ! i) \<or> h <s age clk i (as ! i) \<or>
      m <s age clk i (as ! i) \<or> l <s age clk i (as ! i))} =
     {i. i < length bs \<and>
     (c <s age clk i (bs ! i) \<or> h <s age clk i (bs ! i) \<or>
      m <s age clk i (bs ! i) \<or> l <s age clk i (bs ! i))}"
    using len by (auto simp add: age_eq)
  then have "fst (filterBreachedAlerts clk as c h m l) = nths as {i. i < length bs \<and>
     (c <s age clk i (bs ! i) \<or> h <s age clk i (bs ! i) \<or>
      m <s age clk i (bs ! i) \<or> l <s age clk i (bs ! i))}"
    unfolding filterBreachedAlerts_nths by (rule arg_cong)
  moreover note filterBreachedAlerts_nths [of clk bs c h m l]
  moreover have "subseq (fst (filterBreachedAlerts clk as c h m l)) as"
    unfolding filterBreachedAlerts_nths subseq_conv_nths by blast
  ultimately show ?thesis by blast
qed

theorem filterBreachedAlerts_only_CreatedAt_witness:
  "(\<exists>I. fst (filterBreachedAlerts (\<lambda>i. 100)
      [\<lparr>Kind = ''Dependabot'', Severity = ''high'', Link = ''u1'', CreatedAt = 95\<rparr>,
       \<lparr>Kind = ''SecretScanning'', Severity = ''critical'', Link = ''u2'', CreatedAt = 10\<rparr>]
      50 60 70 80) =
       nths [\<lparr>Kind = ''Dependabot'', Severity = ''high'', Link = ''u1'', CreatedAt = 95\<rparr>,
             \<lparr>Kind = ''SecretScanning'', Severity = ''critical'', Link = ''u2'', CreatedAt = 10\<rparr>] I \<and>
     fst (filterBreachedAlerts (\<lambda>i. 100)
      [\<lparr>Kind = ''CodeScanning'', Severity = ''note'', Link = ''u3'', CreatedAt = 95\<rparr>,
       \<lparr>Kind = ''Dependabot'', Severity = ''low'', Link = ''u4'', CreatedAt = 10\<rparr>]
      50 60 70 80) =
       nths [\<lparr>Kind = ''CodeScanning'', Severity = ''note'', Link = ''u3'', CreatedAt = 95\<rparr>,
             \<lparr>Kind = ''Dependabot'', Severity = ''low'', Link = ''u4'', CreatedAt = 10\<rparr>] I) \<and>
   subseq (fst (filterBreachedAlerts (\<lambda>i. 100)
      [\<lparr>Kind = ''Dependabot'', Severity = ''high'', Link = ''u1'', CreatedAt = 95\<rparr>,
       \<lparr>Kind = ''SecretScanning'', Severity = ''critical'', Link = ''u2'', CreatedAt = 10\<rparr>]
      50 60 70 80))
     [\<lparr>Kind = ''Dependabot'', Severity = ''high'', Link = ''u1'', CreatedAt = 95\<rparr>,
      \<lparr>Kind = ''SecretScanning'', Severity = ''critical'', Link = ''u2'', CreatedAt = 10\<rparr>]"
  by (rule filterBreachedAlerts_only_CreatedAt) simp

text \<open>
  Claim C8. \<^verbatim>\<open>filterBreachedAlerts\<close> has no error result, and its result is determined
  by the alert list, the four thresholds and the readings of the clock that
  \<^verbatim>\<open>time.Since\<close> takes, one for each alert: two runs on the same list and thresholds in
  which these readings agree return the same breached list. The one effect of a run is
  that the clock has been read once for each alert.
\<close>

theorem filterBreachedAlerts_same_readings:
  assumes "\<forall>i<length alerts. clk i = clk' i"
  shows "fst (filterBreachedAlerts clk alerts c h m l) = fst (filterBreachedAlerts clk' alerts c h m l) \<and>
         snd (filterBreachedAlerts clk alerts c h m l) = (\<lambda>j. clk (length alerts + j))"
proof -
  have "{i. i < length alerts \<and>
     (c <s age clk i (alerts ! i) \<or> h <s age clk i (alerts ! i) \<or>
      m <s age clk i (alerts ! i) \<or> l <s age clk i (alerts ! i))} =
     {i. i < length alerts \<and>
     (c <s age clk' i (alerts ! i) \<or> h <s age clk' i (alerts ! i) \<or>
      m <s age clk' i (alerts ! i) \<or> l <s age clk' i (alerts ! i))}"
    using assms by (auto simp add: age_eq)
  then have "fst (filterBreachedAlerts clk alerts c h m l) =
             fst (filterBreachedAlerts clk' alerts c h m l)"
    unfolding filterBreachedAlerts_nths by (rule arg_cong)
  then show ?thesis
    by (simp add: filterBreachedAlerts_clock)
qed

text \<open>Two clocks that agree on the one reading taken and differ afterwards.\<close>

theorem filterBreachedAlerts_same_readings_witness:
  "fst (filterBreachedAlerts (\<lambda>i. if i < 1 then 100 else 0)
      [\<lparr>Kind = ''Dependabot'', Severity = ''high'', Link = ''u1'', CreatedAt = 10\<rparr>] 50 60 70 80) =
   fst (filterBreachedAlerts (\<lambda>i. 100)
      [\<lparr>Kind = ''Dependabot'', Severity = ''high'', Link = ''u1'', CreatedAt = 10\<rparr>] 50 60 70 80)"
proof -
  have "\<forall>i<length [\<lparr>Kind = ''Dependabot'', Severity = ''high'', Link = ''u1'', CreatedAt = 10\<rparr>].
          (\<lambda>i. if i < 1 then 100 else 0) i = (\<lambda>i. 100 :: Time) i"
    by simp
  from filterBreachedAlerts_same_readings [OF this] show ?thesis by blast
qed

text \<open>
  The same list and the same thresholds, evaluated when the clock reads 5 and when it
  reads 20: the alert, created at 0, is within the thresholds of 10 the first time and
  breaches them the second time.
\<close>

theorem filterBreachedAlerts_depends_on_clock:
  "fst (filterBreachedAlerts (\<lambda>i. 5)
      [\<lparr>Kind = ''Dependabot'', Severity = ''high'', Link = ''u1'', CreatedAt = 0\<rparr>] 10 10 10 10) = [] \<and>
   fst (filterBreachedAlerts (\<lambda>i. 20)
      [\<lparr>Kind = ''Dependabot'', Severity = ''high'', Link = ''u1'', CreatedAt = 0\<rparr>] 10 10 10 10) =
     [\<lparr>Kind = ''Dependabot'', Severity = ''high'', Link = ''u1'', CreatedAt = 0\<rparr>]"
  by (simp add: filterBreachedAlerts_def Since_eq Sub_def)

section \<open>Properties of the thresholds\<close>

lemma Hour_eq: "Hour = 3600000000000"
  by (simp add: Hour_def Minute_def Second_def Millisecond_def Microsecond_def Nanosecond_def)

lemma sint_Hour: "sint Hour = 3600000000000"
  by (simp add: Hour_eq)

text \<open>Within about 292 years the two 64-bit products do not wrap around.\<close>

lemma days_threshold:
  fixes x :: go_int
  assumes "- 106751 \<le> sint x" and "sint x \<le> 106751"
  shows "sint ((x * 24) * Hour) = sint x * (24 * sint Hour)"
proof -
  have "sint ((x * 24) * Hour) = signed_take_bit 63 (sint x * 86400000000000)"
    by (simp add: Hour_eq sint_word_ariths signed_take_bit_mult mult.assoc)
  also have "\<dots> = sint x * 86400000000000"
    using assms by (intro signed_take_bit_int_eq_self) simp_all
  finally show ?thesis by (simp add: sint_Hour)
qed

text \<open>
  Claim C7. For a day count between -106751 and 106751, each of the four thresholds that
  \<^verbatim>\<open>Run\<close> hands to the evaluator is, in nanoseconds, the corresponding day count
  multiplied by 24 hours.
\<close>

theorem thresholds_from_days:
  "(- 106751 \<le> sint (Critical a) \<and> sint (Critical a) \<le> 106751 \<longrightarrow>
      sint (criticalThreshold a) = sint (Critical a) * (24 * sint Hour)) \<and>
   (- 106751 \<le> sint (High a) \<and> sint (High a) \<le> 106751 \<longrightarrow>
      sint (highThreshold a) = sint (High a) * (24 * sint Hour)) \<and>
   (- 106751 \<le> sint (Medium a) \<and> sint (Medium a) \<le> 106751 \<longrightarrow>
      sint (mediumThreshold a) = sint (Medium a) * (24 * sint Hour)) \<and>
   (- 106751 \<le> sint (Low a) \<and> sint (Low a) \<le> 106751 \<longrightarrow>
      sint (lowThreshold a) = sint (Low a) * (24 * sint Hour))"
  by (simp add: criticalThreshold_def highThreshold_def mediumThreshold_def lowThreshold_def
        days_threshold)

text \<open>Thresholds of 1, 7, 30 and 90 days, in nanoseconds.\<close>

theorem thresholds_from_days_witness:
  "sint (criticalThreshold
          \<lparr>Token = ''t'', Critical = 1, High = 7, Medium = 30, Low = 90\<rparr>) = 86400000000000 \<and>
   sint (highThreshold
          \<lparr>Token = ''t'', Critical = 1, High = 7, Medium = 30, Low = 90\<rparr>) = 604800000000000 \<and>
   sint (mediumThreshold
          \<lparr>Token = ''t'', Critical = 1, High = 7, Medium = 30, Low = 90\<rparr>) = 2592000000000000 \<and>
   sint (lowThreshold
          \<lparr>Token = ''t'', Critical = 1, High = 7, Medium = 30, Low = 90\<rparr>) = 7776000000000000"
  using thresholds_from_days [of "\<lparr>Token = ''t'', Critical = 1, High = 7, Medium = 30, Low = 90\<rparr>"]
  by (simp add: sint_Hour)

text \<open>
  With a critical threshold of 106752 days the product leaves the 64-bit range: the
  duration that \<^verbatim>\<open>Run\<close> computes is negative and is not 106752 times 24 hours.
\<close>

theorem thresholds_from_days_overflow:
  "sint (criticalThreshold \<lparr>Token = ''t'', Critical = 106752, High = 7, Medium = 30, Low = 90\<rparr>) =
     - 9223371273709551616 \<and>
   sint (Critical \<lparr>Token = ''t'', Critical = 106752, High = 7, Medium = 30, Low = 90\<rparr>) * (24 * sint Hour) =
     9223372800000000000"
  by (simp add: criticalThreshold_def Hour_eq)

text \<open>
  Claim C2, at one input. With thresholds of 1, 7, 30 and 90 days, an alert of severity
  \<^verbatim>\<open>low\<close> that is two days old is returned as breached, although its age does not
  exceed the threshold of its own severity, 90 days: it exceeds the critical one.
\<close>

theorem filterBreachedAlerts_low_alert_critical_threshold:
  "fst (filterBreachedAlerts (\<lambda>i. 172800000000000)
         [\<lparr>Kind = ''Dependabot'', Severity = ''low'', Link = ''u'', CreatedAt = 0\<rparr>]
         (criticalThreshold \<lparr>Token = ''t'', Critical = 1, High = 7, Medium = 30, Low = 90\<rparr>)
         (highThreshold \<lparr>Token = ''t'', Critical = 1, High = 7, Medium = 30, Low = 90\<rparr>)
         (mediumThreshold \<lparr>Token = ''t'', Critical = 1, High = 7, Medium = 30, Low = 90\<rparr>)
         (lowThreshold \<lparr>Token = ''t'', Critical = 1, High = 7, Medium = 30, Low = 90\<rparr>)) =
     [\<lparr>Kind = ''Dependabot'', Severity = ''low'', Link = ''u'', CreatedAt = 0\<rparr>] \<and>
   \<not> lowThreshold \<lparr>Token = ''t'', Critical = 1, High = 7, Medium = 30, Low = 90\<rparr> <s
       age (\<lambda>i. 172800000000000) 0
         \<lparr>Kind = ''Dependabot'', Severity = ''low'', Link = ''u'', CreatedAt = 0\<rparr>"
  by (simp add: filterBreachedAlerts_def Since_eq age_eq Sub_def criticalThreshold_def
        highThreshold_def mediumThreshold_def lowThreshold_def Hour_eq)

section \<open>Properties of fetching and of the run\<close>

lemma fetchRepoAlerts_first_fatal:
  "CodeScanning_ListAlertsForRepo env = (xs, Some e) \<Longrightarrow> \<not> isDisabledError e \<Longrightarrow>
   fetchRepoAlerts env = ([], Some e)"
  by (simp add: fetchRepoAlerts_def)

lemma fetchRepoAlerts_second_fatal:
  "\<forall>e'. snd (CodeScanning_ListAlertsForRepo env) = Some e' \<longrightarrow> isDisabledError e' \<Longrightarrow>
   Dependabot_ListRepoAlerts env = (ys, Some e) \<Longrightarrow> \<not> isDisabledError e \<Longrightarrow>
   fetchRepoAlerts env = ([], Some e)"
  by (auto simp add: fetchRepoAlerts_def Let_def split: prod.splits option.splits)

lemma fetchRepoAlerts_third_fatal:
  "\<forall>e'. snd (CodeScanning_ListAlertsForRepo env) = Some e' \<longrightarrow> isDisabledError e' \<Longrightarrow>
   \<forall>e'. snd (Dependabot_ListRepoAlerts env) = Some e' \<longrightarrow> isDisabledError e' \<Longrightarrow>
   SecretScanning_ListAlertsForRepo env = (zs, Some e) \<Longrightarrow> \<not> isDisabledError e \<Longrightarrow>
   fetchRepoAlerts env = ([], Some e)"
  by (auto simp add: fetchRepoAlerts_def Let_def split: prod.splits option.splits)

lemma fetchRepoAlerts_first_disabled:
  "CodeScanning_ListAlertsForRepo env = ([], Some e) \<Longrightarrow> isDisabledError e \<Longrightarrow>
   fetchRepoAlerts env = fetchRepoAlerts (env\<lparr>CodeScanning_ListAlertsForRepo := ([], None)\<rparr>)"
  by (simp add: fetchRepoAlerts_def Let_def split: prod.splits option.splits)

lemma fetchRepoAlerts_second_disabled:
  "Dependabot_ListRepoAlerts env = ([], Some e) \<Longrightarrow> isDisabledError e \<Longrightarrow>
   fetchRepoAlerts env = fetchRepoAlerts (env\<lparr>Dependabot_ListRepoAlerts := ([], None)\<rparr>)"
  by (simp add: fetchRepoAlerts_def Let_def split: prod.splits option.splits)

lemma fetchRepoAlerts_third_disabled:
  "SecretScanning_ListAlertsForRepo env = ([], Some e) \<Longrightarrow> isDisabledError e \<Longrightarrow>
   fetchRepoAlerts env = fetchRepoAlerts (env\<lparr>SecretScanning_ListAlertsForRepo := ([], None)\<rparr>)"
  by (simp add: fetchRepoAlerts_def Let_def split: prod.splits option.splits)

lemma Run_fetch_error:
  assumes "GetEvent env = Inr (PullRequestEvent n sha) \<or>
           GetEvent env = Inr (PullRequestTargetEvent n sha)"
    and "fetchRepoAlerts env = (as, Some e)"
  shows "Run env a clk = (Some e, []) \<and> Run_review env a clk = (Some e, [])"
  using assms by (auto simp add: Run_def Run_review_def Now_def Let_def)

text \<open>
  Claim C6. A listing call that fails with an error that \<^verbatim>\<open>isDisabledError\<close> accepts,
  and returns no slice with it (as the client does with every error), leaves
  \<^verbatim>\<open>fetchRepoAlerts\<close> with the result it has when that source answers with no alerts
  and no error: the source contributes nothing and the remaining sources are still
  asked. A listing call that is reached and fails with any other error makes
  \<^verbatim>\<open>fetchRepoAlerts\<close> return no alerts and that error, and the run, in both variants,
  returns that error without publishing anything.
\<close>

theorem fetchRepoAlerts_disabled_or_error:
  "(CodeScanning_ListAlertsForRepo env = ([], Some e) \<and> isDisabledError e \<longrightarrow>
      fetchRepoAlerts env = fetchRepoAlerts (env\<lparr>CodeScanning_ListAlertsForRepo := ([], None)\<rparr>)) \<and>
   (Dependabot_ListRepoAlerts env = ([], Some e) \<and> isDisabledError e \<longrightarrow>
      fetchRepoAlerts env = fetchRepoAlerts (env\<lparr>Dependabot_ListRepoAlerts := ([], None)\<rparr>)) \<and>
   (SecretScanning_ListAlertsForRepo env = ([], Some e) \<and> isDisabledError e \<longrightarrow>
      fetchRepoAlerts env = fetchRepoAlerts (env\<lparr>SecretScanning_ListAlertsForRepo := ([], None)\<rparr>)) \<and>
   (CodeScanning_ListAlertsForRepo env = (xs, Some e) \<and> \<not> isDisabledError e \<longrightarrow>
      fetchRepoAlerts env = ([], Some e)) \<and>
   ((\<forall>e'. snd (CodeScanning_ListAlertsForRepo env) = Some e' \<longrightarrow> isDisabledError e') \<and>
    Dependabot_ListRepoAlerts env = (ys, Some e) \<and> \<not> isDisabledError e \<longrightarrow>
      fetchRepoAlerts env = ([], Some e)) \<and>
   ((\<forall>e'. snd (CodeScanning_ListAlertsForRepo env) = Some e' \<longrightarrow> isDisabledError e') \<and>
    (\<forall>e'. snd (Dependabot_ListRepoAlerts env) = Some e' \<longrightarrow> isDisabledError e') \<and>
    SecretScanning_ListAlertsForRepo env = (zs, Some e) \<and> \<not> isDisabledError e \<longrightarrow>
      fetchRepoAlerts env = ([], Some e)) \<and>
   ((GetEvent env = Inr (PullRequestEvent n sha) \<or>
     GetEvent env = Inr (PullRequestTargetEvent n sha)) \<and>
    fetchRepoAlerts env = (as, Some e) \<longrightarrow>
      Run env a clk = (Some e, []) \<and> Run_review env a clk = (Some e, []))"
  using fetchRepoAlerts_first_disabled [of env e] fetchRepoAlerts_second_disabled [of env e]
    fetchRepoAlerts_third_disabled [of env e] fetchRepoAlerts_first_fatal [of env xs e]
    fetchRepoAlerts_second_fatal [of env ys e] fetchRepoAlerts_third_fatal [of env zs e]
    Run_fetch_error [of env n sha as e a clk]
  by blast

text \<open>
  Five runs: code scanning and Dependabot disabled with one secret-scanning alert; secret
  scanning disabled after two alerts of the other sources; and a failure other than
  a disabled feature at the first, the second and the third call.
\<close>

theorem fetchRepoAlerts_disabled_or_error_witness:
  "fetchRepoAlerts
     \<lparr>GetEvent = Inr (PullRequestEvent 7 ''abc''),
      CodeScanning_ListAlertsForRepo = ([], Some (ErrorResponse ''Secret scanning is disabled'')),
      Dependabot_ListRepoAlerts = ([], Some (ErrorResponse ''Secret scanning is disabled'')),
      SecretScanning_ListAlertsForRepo = ([SecretScanningAlert ''u3'' 40], None),
      Checks_CreateCheckRun = (\<lambda>opts. None),
      PullRequests_CreateReview = (\<lambda>n rv. None)\<rparr> =
     ([\<lparr>Kind = ''SecretScanning'', Severity = ''critical'', Link = ''u3'', CreatedAt = 40\<rparr>],
      None) \<and>
   fetchRepoAlerts
     \<lparr>GetEvent = Inr (PullRequestEvent 7 ''abc''),
      CodeScanning_ListAlertsForRepo = ([CodeScanningAlert ''warning'' ''u1'' 10], None),
      Dependabot_ListRepoAlerts = ([DependabotAlert ''low'' ''u2'' 20], None),
      SecretScanning_ListAlertsForRepo = ([], Some (ErrorResponse ''Secret scanning is disabled'')),
      Checks_CreateCheckRun = (\<lambda>opts. None),
      PullRequests_CreateReview = (\<lambda>n rv. None)\<rparr> =
     ([\<lparr>Kind = ''CodeScanning'', Severity = ''warning'', Link = ''u1'', CreatedAt = 10\<rparr>,
       \<lparr>Kind = ''Dependabot'', Severity = ''low'', Link = ''u2'', CreatedAt = 20\<rparr>],
      None) \<and>
   fetchRepoAlerts
     \<lparr>GetEvent = Inr (PullRequestEvent 7 ''abc''),
      CodeScanning_ListAlertsForRepo = ([], Some (ErrorResponse ''Not Found'')),
      Dependabot_ListRepoAlerts = ([DependabotAlert ''low'' ''u2'' 20], None),
      SecretScanning_ListAlertsForRepo = ([], None),
      Checks_CreateCheckRun = (\<lambda>opts. None),
      PullRequests_CreateReview = (\<lambda>n rv. None)\<rparr> = ([], Some (ErrorResponse ''Not Found'')) \<and>
   fetchRepoAlerts
     \<lparr>GetEvent = Inr (PullRequestEvent 7 ''abc''),
      CodeScanning_ListAlertsForRepo = ([], Some (ErrorResponse ''Secret scanning is disabled'')),
      Dependabot_ListRepoAlerts = ([], Some (OtherError ''timeout'')),
      SecretScanning_ListAlertsForRepo = ([], None),
      Checks_CreateCheckRun = (\<lambda>opts. None),
      PullRequests_CreateReview = (\<lambda>n rv. None)\<rparr> = ([], Some (OtherError ''timeout'')) \<and>
   fetchRepoAlerts
     \<lparr>GetEvent = Inr (PullRequestEvent 7 ''abc''),
      CodeScanning_ListAlertsForRepo = ([], Some (ErrorResponse ''Secret scanning is disabled'')),
      Dependabot_ListRepoAlerts = ([DependabotAlert ''low'' ''u2'' 20], None),
      SecretScanning_ListAlertsForRepo = ([], Some (OtherError ''timeout'')),
      Checks_CreateCheckRun = (\<lambda>opts. None),
      PullRequests_CreateReview = (\<lambda>n rv. None)\<rparr> = ([], Some (OtherError ''timeout'')) \<and>
   Run
     \<lparr>GetEvent = Inr (PullRequestEvent 7 ''abc''),
      CodeScanning_ListAlertsForRepo = ([], Some (ErrorResponse ''Secret scanning is disabled'')),
      Dependabot_ListRepoAlerts = ([DependabotAlert ''low'' ''u2'' 20], None),
      SecretScanning_ListAlertsForRepo = ([], Some (OtherError ''timeout'')),
      Checks_CreateCheckRun = (\<lambda>opts. None),
      PullRequests_CreateReview = (\<lambda>n rv. None)\<rparr>
     \<lparr>Token = ''t'', Critical = 1, High = 7, Medium = 30, Low = 90\<rparr> (\<lambda>i. 100) =
     (Some (OtherError ''timeout''), []) \<and>
   Run_review
     \<lparr>GetEvent = Inr (PullRequestEvent 7 ''abc''),
      CodeScanning_ListAlertsForRepo = ([], Some (ErrorResponse ''Secret scanning is disabled'')),
      Dependabot_ListRepoAlerts = ([DependabotAlert ''low'' ''u2'' 20], None),
      SecretScanning_ListAlertsForRepo = ([], Some (OtherError ''timeout'')),
      Checks_CreateCheckRun = (\<lambda>opts. None),
      PullRequests_CreateReview = (\<lambda>n rv. None)\<rparr>
     \<lparr>Token = ''t'', Critical = 1, High = 7, Medium = 30, Low = 90\<rparr> (\<lambda>i. 100) =
     (Some (OtherError ''timeout''), [])"
  (is "fetchRepoAlerts ?B = ?rb \<and> fetchRepoAlerts ?D = ?rd \<and> fetchRepoAlerts ?E = ?re \<and>
       fetchRepoAlerts ?F = ?rf \<and> fetchRepoAlerts ?A = ?ra \<and>
       Run ?A ?act ?clk = ?rr \<and> Run_review ?A ?act ?clk = ?rr")
proof -
  let ?dis = "ErrorResponse ''Secret scanning is disabled''"
  have b: "fetchRepoAlerts ?B = ?rb"
    using fetchRepoAlerts_disabled_or_error [of ?B ?dis]
          fetchRepoAlerts_disabled_or_error
            [of "?B\<lparr>CodeScanning_ListAlertsForRepo := ([], None)\<rparr>" ?dis]
    by (simp add: fetchRepoAlerts_def)
  have d: "fetchRepoAlerts ?D = ?rd"
    using fetchRepoAlerts_disabled_or_error [of ?D ?dis]
    by (simp add: fetchRepoAlerts_def)
  have e: "fetchRepoAlerts ?E = ?re"
    using fetchRepoAlerts_disabled_or_error [of ?E "ErrorResponse ''Not Found''" "[]"]
    by simp
  have f: "fetchRepoAlerts ?F = ?rf"
    using fetchRepoAlerts_disabled_or_error [of ?F "OtherError ''timeout''" _ "[]"]
    by simp
  have a: "fetchRepoAlerts ?A = ?ra"
    using fetchRepoAlerts_disabled_or_error [of ?A "OtherError ''timeout''" _ _ "[]"]
    by simp
  have r: "Run ?A ?act ?clk = ?rr \<and> Run_review ?A ?act ?clk = ?rr"
    using a fetchRepoAlerts_disabled_or_error
            [of ?A "OtherError ''timeout''" _ _ _ 7 "''abc''" "[]" ?act ?clk]
    by simp
  from b d e f a r show ?thesis by simp
qed

text \<open>
  Claim C3. When the event is a pull-request event and the fetched alert list is empty,
  the breached list is empty and the run publishes one check run, whose conclusion is
  \<^verbatim>\<open>success\<close>, and returns what the publishing call returned: no error if that call
  succeeded. In the variant that reviews the pull request, the approving review is
  published first: if it succeeds the same holds after it, and if it fails the run returns
  its error and publishes no check run.
\<close>

theorem Run_no_alerts_success:
  assumes "GetEvent env = Inr (PullRequestEvent n sha) \<or>
           GetEvent env = Inr (PullRequestTargetEvent n sha)"
    and "fetchRepoAlerts env = ([], None)"
  shows "fst (filterBreachedAlerts clk' (fst (fetchRepoAlerts env)) (criticalThreshold a)
                (highThreshold a) (mediumThreshold a) (lowThreshold a)) = [] \<and>
         (\<exists>opts. Conclusion opts = Some ''success'' \<and>
            Run env a clk = (Checks_CreateCheckRun env opts, [CreateCheckRun opts])) \<and>
         ((PullRequests_CreateReview env n \<lparr>Body = None, Event = Some ''APPROVE''\<rparr> = None \<and>
           (\<exists>opts. Conclusion opts = Some ''success'' \<and>
              Run_review env a clk =
                (Checks_CreateCheckRun env opts,
                 [CreateReview n \<lparr>Body = None, Event = Some ''APPROVE''\<rparr>, CreateCheckRun opts]))) \<or>
          (PullRequests_CreateReview env n \<lparr>Body = None, Event = Some ''APPROVE''\<rparr> \<noteq> None \<and>
           Run_review env a clk =
             (PullRequests_CreateReview env n \<lparr>Body = None, Event = Some ''APPROVE''\<rparr>,
              [CreateReview n \<lparr>Body = None, Event = Some ''APPROVE''\<rparr>])))"
proof (intro conjI)
  show "fst (filterBreachedAlerts clk' (fst (fetchRepoAlerts env)) (criticalThreshold a)
                (highThreshold a) (mediumThreshold a) (lowThreshold a)) = []"
    using assms(2) by (simp add: filterBreachedAlerts_Nil)
  show "\<exists>opts. Conclusion opts = Some ''success'' \<and>
            Run env a clk = (Checks_CreateCheckRun env opts, [CreateCheckRun opts])"
    using assms by (auto simp add: Run_def Now_def Let_def)
  show "(PullRequests_CreateReview env n \<lparr>Body = None, Event = Some ''APPROVE''\<rparr> = None \<and>
           (\<exists>opts. Conclusion opts = Some ''success'' \<and>
              Run_review env a clk =
                (Checks_CreateCheckRun env opts,
                 [CreateReview n \<lparr>Body = None, Event = Some ''APPROVE''\<rparr>, CreateCheckRun opts]))) \<or>
          (PullRequests_CreateReview env n \<lparr>Body = None, Event = Some ''APPROVE''\<rparr> \<noteq> None \<and>
           Run_review env a clk =
             (PullRequests_CreateReview env n \<lparr>Body = None, Event = Some ''APPROVE''\<rparr>,
              [CreateReview n \<lparr>Body = None, Event = Some ''APPROVE''\<rparr>]))"
  proof (cases "PullRequests_CreateReview env n \<lparr>Body = None, Event = Some ''APPROVE''\<rparr>")
    case None
    with assms show ?thesis
      by (auto simp add: Run_review_def Now_def Let_def)
  next
    case (Some e)
    with assms show ?thesis
      by (auto simp add: Run_review_def Now_def Let_def)
  qed
qed

text \<open>
  A pull request on a repository where code scanning is disabled and the other two
  sources have no open alert, with publishing calls that succeed: both variants return
  no error, after one successful check run.
\<close>

theorem Run_no_alerts_success_witness:
  "(\<exists>opts. Conclusion opts = Some ''success'' \<and>
      Run
        \<lparr>GetEvent = Inr (PullRequestEvent 7 ''abc''),
         CodeScanning_ListAlertsForRepo = ([], Some (ErrorResponse ''Secret scanning is disabled'')),
         Dependabot_ListRepoAlerts = ([], None),
         SecretScanning_ListAlertsForRepo = ([], None),
         Checks_CreateCheckRun = (\<lambda>opts. None),
         PullRequests_CreateReview = (\<lambda>n rv. None)\<rparr>
        \<lparr>Token = ''t'', Critical = 1, High = 7, Medium = 30, Low = 90\<rparr>
        (\<lambda>i. 100 + int i) = (None, [CreateCheckRun opts])) \<and>
   (\<exists>opts. Conclusion opts = Some ''success'' \<and>
      Run_review
        \<lparr>GetEvent = Inr (PullRequestEvent 7 ''abc''),
         CodeScanning_ListAlertsForRepo = ([], Some (ErrorResponse ''Secret scanning is disabled'')),
         Dependabot_ListRepoAlerts = ([], None),
         SecretScanning_ListAlertsForRepo = ([], None),
         Checks_CreateCheckRun = (\<lambda>opts. None),
         PullRequests_CreateReview = (\<lambda>n rv. None)\<rparr>
        \<lparr>Token = ''t'', Critical = 1, High = 7, Medium = 30, Low = 90\<rparr>
        (\<lambda>i. 100 + int i) =
        (None, [CreateReview 7 \<lparr>Body = None, Event = Some ''APPROVE''\<rparr>, CreateCheckRun opts]))"
  (is "(\<exists>opts. _ \<and> Run ?env ?act ?clk = _) \<and> _")
proof -
  have "fetchRepoAlerts ?env = ([], None)"
    by (simp add: fetchRepoAlerts_def)
  then show ?thesis
    using Run_no_alerts_success [of ?env 7 "''abc''" "\<lambda>i. 0" ?act ?clk]
    by simp
qed

end
